theory Spec2Isabelle
  imports Complex_Main
begin

section \<open>Values of the Python runtime\<close>

text \<open>
  Python floats are modelled as exact rationals: every bound examined below is a bound
  between representable constants, and rounding to nearest is monotone, so the exact
  model does not hide an excursion. Strings are \<open>string\<close>; Python ints are \<open>int\<close>.
\<close>

text \<open>\<open>int(x)\<close> on a float truncates toward zero.\<close>

definition py_int :: "rat \<Rightarrow> int" where
  "py_int x = (if 0 \<le> x then \<lfloor>x\<rfloor> else \<lceil>x\<rceil>)"

text \<open>\<open>round(x, 1)\<close>: the nearest multiple of one tenth, ties to the even neighbour.\<close>

definition round_half_even :: "rat \<Rightarrow> int" where
  "round_half_even y =
     (let f = \<lfloor>y\<rfloor>; r = y - of_int f
      in if r < 1 / 2 then f
         else if 1 / 2 < r then f + 1
         else if even f then f else f + 1)"

definition py_round1 :: "rat \<Rightarrow> rat" where
  "py_round1 x = of_int (round_half_even (x * 10)) / 10"

subsection \<open>The \<open>random\<close> module\<close>

text \<open>
  The simulator draws from Python's \<open>random\<close> module. Each call site receives the raw
  outcome of the generator as an argument: \<open>u\<close> is what \<open>random.random()\<close>
  returned (a number in the half-open unit interval), \<open>k\<close> is what the generator's
  \<open>_randbelow(n)\<close> returned (a natural number below \<open>n\<close>).
  \<open>uniform(a, b)\<close> is \<open>a + (b - a) * random()\<close>; \<open>randint(a, b)\<close> is
  \<open>a + _randbelow(b - a + 1)\<close>; \<open>choice(seq)\<close> is \<open>seq[_randbelow(len(seq))]\<close>.
\<close>

definition unit_draw :: "rat \<Rightarrow> bool" where
  "unit_draw u = (0 \<le> u \<and> u < 1)"

definition uniform :: "rat \<Rightarrow> rat \<Rightarrow> rat \<Rightarrow> rat" where
  "uniform a b u = a + (b - a) * u"

definition randint :: "int \<Rightarrow> int \<Rightarrow> nat \<Rightarrow> int" where
  "randint a b k = a + int k"

definition randint_draw :: "int \<Rightarrow> int \<Rightarrow> nat \<Rightarrow> bool" where
  "randint_draw a b k = (int k < b - a + 1)"

definition choice :: "'a list \<Rightarrow> nat \<Rightarrow> 'a" where
  "choice xs k = xs ! k"

definition choice_draw :: "'a list \<Rightarrow> nat \<Rightarrow> bool" where
  "choice_draw xs k = (k < length xs)"

section \<open>RobotSimulator\<close>

record robot =
  running :: bool
  current_status :: string
  battery_level :: rat

record command_result =
  success :: bool
  message :: string
  result_robot_id :: "string option"

record sample =
  temperature :: rat
  battery :: int
  motor_rpm :: int
  status :: string
  timestamp :: string
  sample_robot_id :: "string option"

definition STATUS_CHOICES :: "string list" where
  "STATUS_CHOICES = [''idle'', ''working'', ''working'', ''working'', ''error'']"

definition TEMP_MIN :: rat where "TEMP_MIN = 35"
definition TEMP_MAX :: rat where "TEMP_MAX = 55"
definition BATTERY_MIN :: int where "BATTERY_MIN = 20"
definition BATTERY_MAX :: int where "BATTERY_MAX = 100"
definition RPM_MIN :: int where "RPM_MIN = 800"
definition RPM_MAX :: int where "RPM_MAX = 1800"

text \<open>\<open>__init__\<close>: \<open>k\<close> is the draw behind \<open>random.randint(70, 100)\<close>.\<close>

definition init :: "nat \<Rightarrow> robot" where
  "init k = \<lparr>running = True, current_status = ''idle'',
             battery_level = of_int (randint 70 100 k)\<rparr>"

definition start :: "robot \<Rightarrow> command_result \<times> robot" where
  "start s =
     (\<lparr>success = True, message = ''Robot started'', result_robot_id = None\<rparr>,
      s\<lparr>running := True, current_status := ''working''\<rparr>)"

definition stop :: "robot \<Rightarrow> command_result \<times> robot" where
  "stop s =
     (\<lparr>success = True, message = ''Robot stopped'', result_robot_id = None\<rparr>,
      s\<lparr>running := False, current_status := ''idle''\<rparr>)"

definition reset :: "nat \<Rightarrow> robot \<Rightarrow> command_result \<times> robot" where
  "reset k s =
     (\<lparr>success = True, message = ''Robot reset'', result_robot_id = None\<rparr>,
      s\<lparr>running := True, current_status := ''idle'',
        battery_level := of_int (randint 70 100 k)\<rparr>)"

text \<open>
  The outcomes of the random calls of one \<open>generate_telemetry\<close> call, in the order of
  the call sites, and the reading of the clock. A draw whose call site is not reached
  (the drain when the robot is not working, the drift roll when it is not running, the
  choice when the roll is not below 0.1, the low-battery roll when the battery is at
  least 30) is not looked at.
\<close>

record gen_draws =
  temp_u :: rat
  drain_u :: rat
  rpm_k :: nat
  drift_u :: rat
  choice_k :: nat
  lowbat_u :: rat
  clock :: string

definition generate_telemetry :: "robot \<Rightarrow> gen_draws \<Rightarrow> sample \<times> robot" where
  "generate_telemetry s d =
     (let temp =
            (if current_status s = ''working'' then uniform 40 TEMP_MAX (temp_u d)
             else if current_status s = ''error'' then uniform 50 60 (temp_u d)
             else uniform TEMP_MIN 42 (temp_u d));
          s1 = (if running s \<and> current_status s = ''working''
                then s\<lparr>battery_level :=
                         max (of_int BATTERY_MIN)
                             (battery_level s - uniform 0 (1 / 2) (drain_u d))\<rparr>
                else s);
          batt = py_int (battery_level s1);
          rpm =
            (if current_status s1 = ''working'' then randint 1200 RPM_MAX (rpm_k d)
             else if current_status s1 = ''error'' then randint 0 500 (rpm_k d)
             else randint RPM_MIN 1000 (rpm_k d));
          s2 = (if running s1 \<and> drift_u d < 1 / 10
                then s1\<lparr>current_status := choice STATUS_CHOICES (choice_k d)\<rparr>
                else s1);
          s3 = (if batt < 30 \<and> lowbat_u d < 3 / 10
                then s2\<lparr>current_status := ''error''\<rparr>
                else s2)
      in (\<lparr>temperature = py_round1 temp, battery = batt, motor_rpm = rpm,
           status = current_status s3, timestamp = clock d,
           sample_robot_id = None\<rparr>, s3))"

text \<open>The draws are outcomes the library can produce at the call sites reached from \<open>s\<close>.\<close>

definition gen_draws_ok :: "robot \<Rightarrow> gen_draws \<Rightarrow> bool" where
  "gen_draws_ok s d =
     (unit_draw (temp_u d) \<and> unit_draw (drain_u d) \<and>
      (if current_status s = ''working'' then randint_draw 1200 RPM_MAX (rpm_k d)
       else if current_status s = ''error'' then randint_draw 0 500 (rpm_k d)
       else randint_draw RPM_MIN 1000 (rpm_k d)) \<and>
      unit_draw (drift_u d) \<and> choice_draw STATUS_CHOICES (choice_k d) \<and>
      unit_draw (lowbat_u d))"

text \<open>
  \<open>execute_command\<close> looks the command up in a dictionary of the three bound methods
  and calls the one found; \<open>k\<close> is the draw \<open>reset\<close> would consume.
\<close>

definition commands :: "nat \<Rightarrow> (string \<times> (robot \<Rightarrow> command_result \<times> robot)) list" where
  "commands k = [(''start'', start), (''stop'', stop), (''reset'', reset k)]"

definition execute_command :: "nat \<Rightarrow> robot \<Rightarrow> string \<Rightarrow> command_result \<times> robot" where
  "execute_command k s command =
     (case map_of (commands k) command of
        None \<Rightarrow>
          (\<lparr>success = False, message = ''Unknown command: '' @ command, result_robot_id = None\<rparr>, s)
      | Some f \<Rightarrow> f s)"

subsection \<open>Sequences of operations\<close>

text \<open>
  A client of the simulator calls \<open>start\<close>, \<open>stop\<close>, \<open>reset\<close> and
  \<open>generate_telemetry\<close> in any order; the operations that draw random numbers carry
  their draws.
\<close>

datatype op = Start | Stop | Reset nat | Generate gen_draws

fun op_ok :: "robot \<Rightarrow> op \<Rightarrow> bool" where
  "op_ok s Start = True"
| "op_ok s Stop = True"
| "op_ok s (Reset k) = randint_draw 70 100 k"
| "op_ok s (Generate d) = gen_draws_ok s d"

fun apply_op :: "robot \<Rightarrow> op \<Rightarrow> robot" where
  "apply_op s Start = snd (start s)"
| "apply_op s Stop = snd (stop s)"
| "apply_op s (Reset k) = snd (reset k s)"
| "apply_op s (Generate d) = snd (generate_telemetry s d)"

fun ops_ok :: "robot \<Rightarrow> op list \<Rightarrow> bool" where
  "ops_ok s [] = True"
| "ops_ok s (x # xs) = (op_ok s x \<and> ops_ok (apply_op s x) xs)"

fun exec :: "robot \<Rightarrow> op list \<Rightarrow> robot" where
  "exec s [] = s"
| "exec s (x # xs) = exec (apply_op s x) xs"

text \<open>
  The samples a sequence of operations returns, each paired with the mode the simulator
  held when that generation began.
\<close>

fun samples :: "robot \<Rightarrow> op list \<Rightarrow> (string \<times> sample) list" where
  "samples s [] = []"
| "samples s (Generate d # xs) =
     (current_status s, fst (generate_telemetry s d)) #
     samples (snd (generate_telemetry s d)) xs"
| "samples s (x # xs) = samples (apply_op s x) xs"

text \<open>The declared temperature range of each mode, and the bounds of a sample.\<close>

definition declared_temp_range :: "string \<Rightarrow> (rat \<times> rat) option" where
  "declared_temp_range m =
     (if m = ''idle'' then Some (35, 42)
      else if m = ''working'' then Some (40, 55)
      else if m = ''error'' then Some (50, 60)
      else None)"

definition declared_rpm_range :: "string \<Rightarrow> (int \<times> int) option" where
  "declared_rpm_range m =
     (if m = ''idle'' then Some (800, 1000)
      else if m = ''working'' then Some (1200, 1800)
      else if m = ''error'' then Some (0, 500)
      else None)"

definition sample_in_bounds :: "string \<Rightarrow> sample \<Rightarrow> bool" where
  "sample_in_bounds m x =
     (0 \<le> battery x \<and> battery x \<le> 100 \<and> 0 \<le> motor_rpm x \<and> motor_rpm x \<le> 1800 \<and>
      (case declared_temp_range m of
         None \<Rightarrow> False
       | Some (lo, hi) \<Rightarrow> lo \<le> temperature x \<and> temperature x \<le> hi))"

definition robot_inv :: "robot \<Rightarrow> bool" where
  "robot_inv s =
     (current_status s \<in> {''idle'', ''working'', ''error''} \<and>
      20 \<le> battery_level s \<and> battery_level s \<le> 100)"

text \<open>Temperature and motor speed both inside the declared ranges of mode \<open>m\<close>.\<close>

definition in_declared_ranges :: "string \<Rightarrow> sample \<Rightarrow> bool" where
  "in_declared_ranges m x =
     (case (declared_temp_range m, declared_rpm_range m) of
        (Some (tlo, thi), Some (rlo, rhi)) \<Rightarrow>
          tlo \<le> temperature x \<and> temperature x \<le> thi \<and>
          rlo \<le> motor_rpm x \<and> motor_rpm x \<le> rhi
      | _ \<Rightarrow> False)"

section \<open>Alert evaluation\<close>

text \<open>
  The dictionary handed to \<open>check_alerts\<close> is read with \<open>.get\<close> and a default, so
  a key may be absent: each key is an optional field. The values built into an alert are
  numbers, strings and formatted strings; a formatted string is kept as the list of its
  literal pieces and interpolated values.
\<close>

record telemetry_data =
  d_id :: "nat option"
  d_robot_id :: "string option"
  d_temperature :: "rat option"
  d_battery :: "int option"
  d_motor_rpm :: "int option"
  d_status :: "string option"
  d_timestamp :: "string option"

datatype pyval = PyInt int | PyFloat rat | PyStr string | PyFStr "pyval list"

type_synonym alert = "(string \<times> pyval) list"

text \<open>\<open>d.get(key, default)\<close>.\<close>

definition get_or :: "'a option \<Rightarrow> 'a \<Rightarrow> 'a" where
  "get_or v dflt = (case v of None \<Rightarrow> dflt | Some x \<Rightarrow> x)"

text \<open>The two bytes of the degree sign in UTF-8, followed by the letter C.\<close>

definition degrees_C :: string where
  "degrees_C = [CHR 0xC2, CHR 0xB0, CHR ''C'']"

text \<open>
  Inside a branch the source reads the key again with \<open>telemetry_data[key]\<close>; the
  branch is entered only when \<open>.get\<close> found a value beyond the threshold, hence not the
  default, so the second read returns the value \<open>.get\<close> returned.
\<close>

definition check_alerts :: "telemetry_data \<Rightarrow> alert list" where
  "check_alerts telemetry_data =
     (let alerts = [];
          alerts =
            (if get_or (d_temperature telemetry_data) 0 > 50
             then alerts @
               [[(''type'', PyStr ''warning''),
                 (''category'', PyStr ''temperature''),
                 (''message'', PyFStr [PyStr ''High temperature: '',
                    PyFloat (get_or (d_temperature telemetry_data) 0), PyStr degrees_C]),
                 (''threshold'', PyInt 50),
                 (''value'', PyFloat (get_or (d_temperature telemetry_data) 0))]]
             else alerts);
          alerts =
            (if get_or (d_temperature telemetry_data) 0 > 55
             then alerts @
               [[(''type'', PyStr ''critical''),
                 (''category'', PyStr ''temperature''),
                 (''message'', PyFStr [PyStr ''Critical temperature: '',
                    PyFloat (get_or (d_temperature telemetry_data) 0), PyStr degrees_C]),
                 (''threshold'', PyInt 55),
                 (''value'', PyFloat (get_or (d_temperature telemetry_data) 0))]]
             else alerts);
          alerts =
            (if get_or (d_battery telemetry_data) 100 < 20
             then alerts @
               [[(''type'', PyStr ''warning''),
                 (''category'', PyStr ''battery''),
                 (''message'', PyFStr [PyStr ''Low battery: '',
                    PyInt (get_or (d_battery telemetry_data) 100), PyStr ''%'']),
                 (''threshold'', PyInt 20),
                 (''value'', PyInt (get_or (d_battery telemetry_data) 100))]]
             else alerts);
          alerts =
            (if get_or (d_battery telemetry_data) 100 < 10
             then alerts @
               [[(''type'', PyStr ''critical''),
                 (''category'', PyStr ''battery''),
                 (''message'', PyFStr [PyStr ''Critical battery: '',
                    PyInt (get_or (d_battery telemetry_data) 100), PyStr ''%'']),
                 (''threshold'', PyInt 10),
                 (''value'', PyInt (get_or (d_battery telemetry_data) 100))]]
             else alerts);
          alerts =
            (if d_status telemetry_data = Some ''error''
             then alerts @
               [[(''type'', PyStr ''critical''),
                 (''category'', PyStr ''status''),
                 (''message'', PyStr ''Robot in ERROR state''),
                 (''value'', PyStr ''error'')]]
             else alerts)
      in alerts)"

text \<open>The dictionary of a sample: every key of the sample is present.\<close>

definition sample_dict :: "sample \<Rightarrow> telemetry_data" where
  "sample_dict x =
     \<lparr>d_id = None, d_robot_id = sample_robot_id x, d_temperature = Some (temperature x),
      d_battery = Some (battery x), d_motor_rpm = Some (motor_rpm x),
      d_status = Some (status x), d_timestamp = Some (timestamp x)\<rparr>"

text \<open>
  The rules of the alert evaluator as the specification lists them: condition, severity,
  category, in the order of emission.
\<close>

definition alert_rules :: "((sample \<Rightarrow> bool) \<times> string \<times> string \<times> int option) list" where
  "alert_rules =
     [(\<lambda>x. temperature x > 50, ''warning'', ''temperature'', Some 50),
      (\<lambda>x. temperature x > 55, ''critical'', ''temperature'', Some 55),
      (\<lambda>x. battery x < 20, ''warning'', ''battery'', Some 20),
      (\<lambda>x. battery x < 10, ''critical'', ''battery'', Some 10),
      (\<lambda>x. status x = ''error'', ''critical'', ''status'', None)]"

definition expected_alerts :: "sample \<Rightarrow> (string \<times> string \<times> int option) list" where
  "expected_alerts x = map snd (filter (\<lambda>r. fst r x) alert_rules)"

text \<open>
  Severity, category and threshold of an emitted alert, the same three of a rule, and
  the set of keys of an alert.
\<close>

definition alert_kind :: "alert \<Rightarrow> pyval option \<times> pyval option \<times> pyval option" where
  "alert_kind a = (map_of a ''type'', map_of a ''category'', map_of a ''threshold'')"

definition kind_of ::
  "string \<times> string \<times> int option \<Rightarrow> pyval option \<times> pyval option \<times> pyval option" where
  "kind_of r =
     (Some (PyStr (fst r)), Some (PyStr (fst (snd r))), map_option PyInt (snd (snd r)))"

definition field_names :: "alert \<Rightarrow> string set" where
  "field_names a = set (map fst a)"

text \<open>The alerts of the battery category raised for a dictionary.\<close>

definition battery_alerts :: "telemetry_data \<Rightarrow> alert list" where
  "battery_alerts data =
     filter (\<lambda>a. map_of a ''category'' = Some (PyStr ''battery'')) (check_alerts data)"

section \<open>TelemetryService\<close>

text \<open>
  What an operation raises. \<open>except Exception\<close> catches the first kind only; the
  other two derive from \<open>BaseException\<close> directly.
\<close>

datatype py_exn = Exception string | KeyboardInterrupt | SystemExit

record telemetry_row =
  row_id :: nat
  row_robot_id :: string
  row_temperature :: rat
  row_battery :: int
  row_motor_rpm :: int
  row_status :: string
  row_timestamp :: string

record command_row =
  cmd_robot_id :: string
  cmd_command :: string

text \<open>
  The service object and the tables its database session writes to. The persistence
  layer is a collaborator: whether a commit succeeds, and the key it assigns to a new
  row, come from outside.
\<close>

record service =
  robot_id :: string
  simulator :: robot
  telemetry_table :: "telemetry_row list"
  command_table :: "command_row list"

record db_env =
  commit_raises :: "py_exn option"
  new_id :: nat

definition DEFAULT_ROBOT_ID :: string where
  "DEFAULT_ROBOT_ID = ''robot_001''"

text \<open>\<open>a or b\<close> on an optional string: \<open>None\<close> and the empty string are falsy.\<close>

definition py_or :: "string option \<Rightarrow> string \<Rightarrow> string" where
  "py_or a b = (case a of None \<Rightarrow> b | Some x \<Rightarrow> if x = [] then b else x)"

definition service_init :: "string option \<Rightarrow> nat \<Rightarrow> service" where
  "service_init rid k =
     \<lparr>robot_id = py_or rid DEFAULT_ROBOT_ID, simulator = init k,
      telemetry_table = [], command_table = []\<rparr>"

text \<open>\<open>Telemetry.to_dict\<close>; the time stamp is kept as its ISO text.\<close>

definition to_dict :: "telemetry_row \<Rightarrow> telemetry_data" where
  "to_dict r =
     \<lparr>d_id = Some (row_id r), d_robot_id = Some (row_robot_id r),
      d_temperature = Some (py_round1 (row_temperature r)),
      d_battery = Some (row_battery r), d_motor_rpm = Some (row_motor_rpm r),
      d_status = Some (row_status r), d_timestamp = Some (row_timestamp r)\<rparr>"

text \<open>\<open>save_telemetry\<close> with the data given (the only use the generator makes of it).\<close>

definition save_telemetry ::
  "db_env \<Rightarrow> service \<Rightarrow> sample \<Rightarrow> string option \<Rightarrow> (py_exn + telemetry_data) \<times> service" where
  "save_telemetry env svc x rid_arg =
     (let rid = py_or rid_arg (py_or (sample_robot_id x) (robot_id svc));
          telemetry =
            \<lparr>row_id = new_id env, row_robot_id = rid, row_temperature = temperature x,
             row_battery = battery x, row_motor_rpm = motor_rpm x, row_status = status x,
             row_timestamp = timestamp x\<rparr>
      in case commit_raises env of
           Some e \<Rightarrow> (Inl e, svc)
         | None \<Rightarrow>
             (Inr (to_dict telemetry),
              svc\<lparr>telemetry_table := telemetry_table svc @ [telemetry]\<rparr>))"

definition generate_and_save_telemetry ::
  "gen_draws \<Rightarrow> db_env \<Rightarrow> service \<Rightarrow> string option \<Rightarrow> (py_exn + telemetry_data) \<times> service" where
  "generate_and_save_telemetry d env svc rid_arg =
     (let (x, sim) = generate_telemetry (simulator svc) d;
          svc = svc\<lparr>simulator := sim\<rparr>
      in save_telemetry env svc x (Some (py_or rid_arg (robot_id svc))))"

text \<open>\<open>sep.join(xs)\<close>.\<close>

fun join :: "string \<Rightarrow> string list \<Rightarrow> string" where
  "join sep [] = []"
| "join sep [x] = x"
| "join sep (x # y # ys) = x @ sep @ join sep (y # ys)"

definition service_execute_command ::
  "nat \<Rightarrow> db_env \<Rightarrow> service \<Rightarrow> string \<Rightarrow> string option \<Rightarrow>
   (py_exn + command_result) \<times> service" where
  "service_execute_command k env svc command rid_arg =
     (let rid = py_or rid_arg (robot_id svc);
          valid_commands = [''start'', ''stop'', ''reset'']
      in if command \<notin> set valid_commands
         then (Inr \<lparr>success = False,
                    message = ''Invalid command. Valid commands: '' @ join '', '' valid_commands,
                    result_robot_id = None\<rparr>, svc)
         else
           (let (result, sim) = execute_command k (simulator svc) command;
                svc = svc\<lparr>simulator := sim\<rparr>
            in case commit_raises env of
                 Some e \<Rightarrow> (Inl e, svc)
               | None \<Rightarrow>
                   (Inr (result\<lparr>result_robot_id := Some rid\<rparr>),
                    svc\<lparr>command_table := command_table svc @
                          [\<lparr>cmd_robot_id = rid, cmd_command = command\<rparr>]\<rparr>)))"

section \<open>The WebSocket hub\<close>

text \<open>
  The module keeps the set \<open>connected_clients\<close>; the Socket.IO server keeps, on its
  side, the sessions it holds a connection to and the members of each room. Every call
  of a logger and every \<open>emit\<close> is recorded as an event, in program order.
\<close>

type_synonym sid = string

datatype target = Everyone | Room string | Client sid

datatype payload =
  TelemetryUpdate telemetry_data
| AlertData alert
| CommandResult command_result
| Fields "(string \<times> pyval) list"

datatype log_entry =
  Info_starting_generator nat
| Debug_generated telemetry_data
| Warning_alert "pyval option"
| Error_generating py_exn
| Info_client_connected sid nat
| Info_client_disconnected sid nat
| Info_subscribed sid string
| Info_unsubscribed sid string
| Debug_broadcasted nat
| Info_broadcasted_alert pyval

datatype event = Logged log_entry | Emitted string payload target | Slept nat

record hub =
  connected_clients :: "sid set"
  sessions :: "sid set"
  rooms :: "string \<Rightarrow> sid set"

definition empty_hub :: hub where
  "empty_hub = \<lparr>connected_clients = {}, sessions = {}, rooms = (\<lambda>r. {})\<rparr>"

text \<open>
  Who an \<open>emit\<close> reaches, as the Socket.IO server documents it: without a room every
  session of the namespace, with a room the members of that room, inside a handler the
  session that sent the event.
\<close>

definition receivers :: "hub \<Rightarrow> target \<Rightarrow> sid set" where
  "receivers h t =
     (case t of Everyone \<Rightarrow> sessions h | Room r \<Rightarrow> rooms h r | Client c \<Rightarrow> {c} \<inter> sessions h)"

definition handle_connect :: "sid \<Rightarrow> hub \<Rightarrow> hub \<times> event list" where
  "handle_connect client_id h =
     (let h = h\<lparr>connected_clients := insert client_id (connected_clients h)\<rparr>
      in (h, [Logged (Info_client_connected client_id (card (connected_clients h))),
              Emitted ''connection_status''
                (Fields [(''status'', PyStr ''connected''),
                         (''client_id'', PyStr client_id),
                         (''message'', PyStr ''Connected to Robot Telemetry WebSocket'')])
                (Client client_id)]))"

definition handle_disconnect :: "sid \<Rightarrow> hub \<Rightarrow> hub \<times> event list" where
  "handle_disconnect client_id h =
     (let h = h\<lparr>connected_clients := connected_clients h - {client_id}\<rparr>
      in (h, [Logged (Info_client_disconnected client_id (card (connected_clients h)))]))"

definition handle_subscribe :: "sid \<Rightarrow> string option \<Rightarrow> hub \<Rightarrow> hub \<times> event list" where
  "handle_subscribe client_id data_channel h =
     (let channel = get_or data_channel ''telemetry'';
          h = h\<lparr>rooms := (rooms h)(channel := insert client_id (rooms h channel))\<rparr>
      in (h, [Logged (Info_subscribed client_id channel),
              Emitted ''subscribed''
                (Fields [(''channel'', PyStr channel),
                         (''message'', PyFStr [PyStr ''Subscribed to '', PyStr channel,
                                               PyStr '' updates''])])
                (Client client_id)]))"

definition handle_unsubscribe :: "sid \<Rightarrow> string option \<Rightarrow> hub \<Rightarrow> hub \<times> event list" where
  "handle_unsubscribe client_id data_channel h =
     (let channel = get_or data_channel ''telemetry'';
          h = h\<lparr>rooms := (rooms h)(channel := rooms h channel - {client_id})\<rparr>
      in (h, [Logged (Info_unsubscribed client_id channel),
              Emitted ''unsubscribed''
                (Fields [(''channel'', PyStr channel),
                         (''message'', PyFStr [PyStr ''Unsubscribed from '', PyStr channel])])
                (Client client_id)]))"

definition handle_ping :: "sid \<Rightarrow> hub \<Rightarrow> hub \<times> event list" where
  "handle_ping client_id h =
     (h, [Emitted ''pong'' (Fields [(''message'', PyStr ''pong'')]) (Client client_id)])"

definition broadcast_telemetry :: "hub \<Rightarrow> telemetry_data \<Rightarrow> event list" where
  "broadcast_telemetry h telemetry_data =
     (if connected_clients h \<noteq> {}
      then [Emitted ''telemetry_update'' (TelemetryUpdate telemetry_data) (Room ''telemetry''),
            Emitted ''telemetry_update'' (TelemetryUpdate telemetry_data) Everyone,
            Logged (Debug_broadcasted (card (connected_clients h)))]
      else [])"

definition broadcast_alert :: "hub \<Rightarrow> alert \<Rightarrow> event list" where
  "broadcast_alert h alert_data =
     [Emitted ''alert'' (AlertData alert_data) Everyone,
      Logged (Info_broadcasted_alert
                (get_or (map_of alert_data ''message'') (PyStr ''Unknown alert'')))]"

definition broadcast_command_result :: "hub \<Rightarrow> command_result \<Rightarrow> event list" where
  "broadcast_command_result h result = [Emitted ''command_result'' (CommandResult result) Everyone]"

text \<open>
  What the server does with the messages of its clients: it opens a session and calls
  the connect handler; it calls the handler of an event for the session that sent it;
  on a disconnect it calls the handler, then drops the session from every room.
\<close>

datatype client_msg =
  Connect sid
| Disconnect sid
| Subscribe sid "string option"
| Unsubscribe sid "string option"
| Ping sid

fun serve :: "hub \<Rightarrow> client_msg \<Rightarrow> hub \<times> event list" where
  "serve h (Connect c) =
     (if c \<in> sessions h then (h, [])
      else handle_connect c (h\<lparr>sessions := insert c (sessions h)\<rparr>))"
| "serve h (Disconnect c) =
     (if c \<in> sessions h
      then (let (h, evs) = handle_disconnect c h
            in (h\<lparr>sessions := sessions h - {c}, rooms := (\<lambda>r. rooms h r - {c})\<rparr>, evs))
      else (h, []))"
| "serve h (Subscribe c ch) = (if c \<in> sessions h then handle_subscribe c ch h else (h, []))"
| "serve h (Unsubscribe c ch) = (if c \<in> sessions h then handle_unsubscribe c ch h else (h, []))"
| "serve h (Ping c) = (if c \<in> sessions h then handle_ping c h else (h, []))"

fun serve_all :: "hub \<Rightarrow> client_msg list \<Rightarrow> hub" where
  "serve_all h [] = h"
| "serve_all h (m # ms) = serve_all (fst (serve h m)) ms"

text \<open>The sessions a list of events delivers a given message to.\<close>

fun delivered :: "hub \<Rightarrow> string \<Rightarrow> payload \<Rightarrow> event list \<Rightarrow> sid set" where
  "delivered h name p [] = {}"
| "delivered h name p (Emitted n q t # evs) =
     (if n = name \<and> q = p then receivers h t \<union> delivered h name p evs
      else delivered h name p evs)"
| "delivered h name p (e # evs) = delivered h name p evs"

text \<open>
  The module's set agrees with the server's sessions, and only sessions sit in rooms.
\<close>

definition hub_inv :: "hub \<Rightarrow> bool" where
  "hub_inv h = (connected_clients h = sessions h \<and> (\<Union>r. rooms h r) \<subseteq> sessions h)"

section \<open>The telemetry generator\<close>

record system =
  svc :: service
  the_hub :: hub
  trace :: "event list"

record tick_env =
  draws :: gen_draws
  db :: db_env

text \<open>The alert loop: broadcast each alert, then log its message.\<close>

fun alert_loop :: "hub \<Rightarrow> alert list \<Rightarrow> event list" where
  "alert_loop h [] = []"
| "alert_loop h (a # as) =
     broadcast_alert h a @ [Logged (Warning_alert (map_of a ''message''))] @ alert_loop h as"

text \<open>
  One pass through the body of \<open>while True\<close>, before the sleep. The result is the
  exception that leaves the \<open>try\<close> statement uncaught, if any.
\<close>

definition tick :: "tick_env \<Rightarrow> system \<Rightarrow> py_exn option \<times> system" where
  "tick env sys =
     (case generate_and_save_telemetry (draws env) (db env) (svc sys) None of
        (Inr data, svc') \<Rightarrow>
          (None,
           sys\<lparr>svc := svc',
               trace := trace sys @ [Logged (Debug_generated data)] @
                        broadcast_telemetry (the_hub sys) data @
                        alert_loop (the_hub sys) (check_alerts data)\<rparr>)
      | (Inl e, svc') \<Rightarrow>
          (case e of
             Exception msg \<Rightarrow>
               (None, sys\<lparr>svc := svc', trace := trace sys @ [Logged (Error_generating e)]\<rparr>)
           | _ \<Rightarrow> (Some e, sys\<lparr>svc := svc'\<rparr>)))"

text \<open>
  The loop has no exit of its own. It is run over the environments of finitely many
  ticks: it ends early with the exception that escaped, or it has gone through all of
  them and is still looping.
\<close>

fun generator_loop :: "nat \<Rightarrow> tick_env list \<Rightarrow> system \<Rightarrow> py_exn option \<times> system" where
  "generator_loop interval [] sys = (None, sys)"
| "generator_loop interval (env # envs) sys =
     (case tick env sys of
        (Some e, sys') \<Rightarrow> (Some e, sys')
      | (None, sys') \<Rightarrow>
          generator_loop interval envs (sys'\<lparr>trace := trace sys' @ [Slept interval]\<rparr>))"

definition telemetry_generator :: "nat \<Rightarrow> tick_env list \<Rightarrow> system \<Rightarrow> py_exn option \<times> system" where
  "telemetry_generator interval envs sys =
     generator_loop interval envs
       (sys\<lparr>trace := trace sys @ [Logged (Info_starting_generator interval)]\<rparr>)"

subsection \<open>Observations on a run of the generator\<close>

text \<open>What \<open>except Exception\<close> catches.\<close>

definition caught :: "py_exn \<Rightarrow> bool" where
  "caught e = (case e of Exception msg \<Rightarrow> True | _ \<Rightarrow> False)"

text \<open>A tick on which the persistence layer either works or fails with an \<open>Exception\<close>.\<close>

definition recoverable :: "tick_env \<Rightarrow> bool" where
  "recoverable env = (case commit_raises (db env) of None \<Rightarrow> True | Some e \<Rightarrow> caught e)"

definition failing :: "tick_env \<Rightarrow> bool" where
  "failing env = (commit_raises (db env) \<noteq> None)"

fun is_sleep :: "event \<Rightarrow> bool" where
  "is_sleep (Slept n) = True"
| "is_sleep e = False"

fun is_error_log :: "event \<Rightarrow> bool" where
  "is_error_log (Logged (Error_generating e)) = True"
| "is_error_log e = False"

definition sleeps :: "system \<Rightarrow> nat" where
  "sleeps sys = length (filter is_sleep (trace sys))"

definition error_logs :: "system \<Rightarrow> nat" where
  "error_logs sys = length (filter is_error_log (trace sys))"

section \<open>Example inputs\<close>

text \<open>
  A generation in which the drift roll falls below 0.1 and the choice lands on the last
  entry of \<open>STATUS_CHOICES\<close>, one in which nothing drifts, and a short session.
\<close>

definition demo_drift :: gen_draws where
  "demo_drift = \<lparr>temp_u = 1 / 2, drain_u = 1 / 2, rpm_k = 100, drift_u = 1 / 20,
                  choice_k = 4, lowbat_u = 9 / 10, clock = ''2024-01-01T00:00:00''\<rparr>"

definition demo_steady :: gen_draws where
  "demo_steady = \<lparr>temp_u = 1 / 4, drain_u = 1 / 2, rpm_k = 100, drift_u = 1 / 2,
                   choice_k = 0, lowbat_u = 1 / 2, clock = ''2024-01-01T00:00:02''\<rparr>"

definition worn_out :: robot where
  "worn_out = \<lparr>running = False, current_status = ''error'', battery_level = 20\<rparr>"

definition hot_sample :: telemetry_data where
  "hot_sample =
     \<lparr>d_id = None, d_robot_id = None, d_temperature = Some 56, d_battery = Some 50,
      d_motor_rpm = Some 100, d_status = Some ''working'', d_timestamp = None\<rparr>"

definition error_sample :: telemetry_data where
  "error_sample =
     \<lparr>d_id = None, d_robot_id = None, d_temperature = Some 40, d_battery = Some 50,
      d_motor_rpm = Some 100, d_status = Some ''error'', d_timestamp = None\<rparr>"

definition demo_ops :: "op list" where
  "demo_ops = [Generate demo_drift, Start, Generate demo_steady, Stop, Reset 3,
               Generate demo_steady]"

definition demo_msgs :: "client_msg list" where
  "demo_msgs = [Connect ''a'', Connect ''b'', Subscribe ''b'' None, Connect ''c'',
                Subscribe ''c'' (Some ''alerts''), Disconnect ''c'']"

definition demo_system :: system where
  "demo_system = \<lparr>svc = service_init None 12, the_hub = empty_hub, trace = []\<rparr>"

definition demo_failed_tick :: tick_env where
  "demo_failed_tick =
     \<lparr>draws = demo_steady,
      db = \<lparr>commit_raises = Some (Exception ''database is locked''), new_id = 2\<rparr>\<rparr>"

definition demo_envs :: "tick_env list" where
  "demo_envs =
     [\<lparr>draws = demo_steady, db = \<lparr>commit_raises = None, new_id = 1\<rparr>\<rparr>,
      demo_failed_tick,
      \<lparr>draws = demo_steady, db = \<lparr>commit_raises = None, new_id = 2\<rparr>\<rparr>]"

section \<open>Properties of the simulator\<close>

subsection \<open>Rounding and the random draws stay inside their intervals\<close>

lemma round_half_even_bounds:
  assumes "of_int lo \<le> y" "y \<le> of_int hi"
  shows "lo \<le> round_half_even y \<and> round_half_even y \<le> hi"
proof -
  have f1: "lo \<le> \<lfloor>y\<rfloor>" using assms(1) by (simp add: le_floor_iff)
  have f2: "\<lfloor>y\<rfloor> \<le> hi" using assms(2) by (simp add: floor_le_iff)
  show ?thesis
  proof (cases "y = of_int hi")
    case True
    then show ?thesis using f1 by (simp add: round_half_even_def)
  next
    case False
    then have "y < of_int hi" using assms(2) by simp
    then have "\<lfloor>y\<rfloor> < hi" by (simp add: floor_less_iff)
    then show ?thesis using f1 by (auto simp: round_half_even_def Let_def)
  qed
qed

lemma py_round1_bounds:
  assumes "of_int lo \<le> x" "x \<le> of_int hi"
  shows "of_int lo \<le> py_round1 x \<and> py_round1 x \<le> of_int hi"
proof -
  have "of_int (lo * 10) \<le> x * 10" "x * 10 \<le> of_int (hi * 10)"
    using assms by simp_all
  from round_half_even_bounds[OF this]
  have "lo * 10 \<le> round_half_even (x * 10)" "round_half_even (x * 10) \<le> hi * 10" by simp_all
  then have "(of_int (lo * 10) :: rat) \<le> of_int (round_half_even (x * 10))"
     "(of_int (round_half_even (x * 10)) :: rat) \<le> of_int (hi * 10)"
    by (simp_all only: of_int_le_iff)
  then show ?thesis by (simp add: py_round1_def)
qed

lemma uniform_bounds:
  assumes "unit_draw u" "a \<le> b"
  shows "a \<le> uniform a b u \<and> uniform a b u \<le> b"
proof -
  have "0 \<le> (b - a) * u" using assms by (simp add: unit_draw_def)
  moreover have "(b - a) * u \<le> (b - a) * 1"
    using assms by (intro mult_left_mono) (simp_all add: unit_draw_def)
  ultimately show ?thesis by (simp add: uniform_def)
qed

lemma py_int_bounds:
  assumes "of_int lo \<le> x" "x \<le> of_int hi" "0 \<le> lo"
  shows "lo \<le> py_int x \<and> py_int x \<le> hi"
proof -
  have "0 \<le> x" using assms(1,3) by (meson of_int_0_le_iff order_trans)
  then have "py_int x = \<lfloor>x\<rfloor>" by (simp add: py_int_def)
  moreover have "lo \<le> \<lfloor>x\<rfloor>" using assms(1) by (simp add: le_floor_iff)
  moreover have "\<lfloor>x\<rfloor> \<le> hi" using assms(2) by (simp add: floor_le_iff)
  ultimately show ?thesis by simp
qed

lemma init_inv: "randint_draw 70 100 k \<Longrightarrow> robot_inv (init k)"
  by (simp add: robot_inv_def init_def randint_def randint_draw_def)

lemma start_inv: "robot_inv s \<Longrightarrow> robot_inv (snd (start s))"
  by (simp add: robot_inv_def start_def)

lemma stop_inv: "robot_inv s \<Longrightarrow> robot_inv (snd (stop s))"
  by (simp add: robot_inv_def stop_def)

lemma reset_inv: "randint_draw 70 100 k \<Longrightarrow> robot_inv (snd (reset k s))"
  by (simp add: robot_inv_def reset_def randint_def randint_draw_def)

lemma choice_status:
  "choice_draw STATUS_CHOICES k \<Longrightarrow> choice STATUS_CHOICES k \<in> {''idle'', ''working'', ''error''}"
proof -
  assume "choice_draw STATUS_CHOICES k"
  then have "k < 5" by (simp add: choice_draw_def STATUS_CHOICES_def)
  then have "k = 0 \<or> k = 1 \<or> k = 2 \<or> k = 3 \<or> k = 4" by arith
  then show ?thesis
    by (auto simp: choice_def STATUS_CHOICES_def)
qed

lemma drain_bounds:
  assumes "unit_draw u" "20 \<le> b" "b \<le> 100"
  shows "20 \<le> max (of_int BATTERY_MIN) (b - uniform 0 (1 / 2) u) \<and>
         max (of_int BATTERY_MIN) (b - uniform 0 (1 / 2) u) \<le> 100"
proof -
  have "0 \<le> uniform 0 (1 / 2) u" using uniform_bounds[OF assms(1), of 0 "1 / 2"] by simp
  then show ?thesis using assms(2,3) by (simp add: BATTERY_MIN_def max_def)
qed

lemma generate_inv:
  assumes "robot_inv s" "gen_draws_ok s d"
  shows "robot_inv (snd (generate_telemetry s d))"
proof -
  have "choice_draw STATUS_CHOICES (choice_k d)"
    using assms(2) by (simp add: gen_draws_ok_def)
  then have c: "choice STATUS_CHOICES (choice_k d) \<in> {''idle'', ''working'', ''error''}"
    by (rule choice_status)
  have u: "unit_draw (drain_u d)" using assms(2) by (simp add: gen_draws_ok_def)
  have b: "20 \<le> battery_level s" "battery_level s \<le> 100"
    using assms(1) by (simp_all add: robot_inv_def)
  note db = drain_bounds[OF u b]
  show ?thesis
    using assms(1) c db
    by (auto simp: generate_telemetry_def robot_inv_def Let_def)
qed

lemma apply_op_inv: "robot_inv s \<Longrightarrow> op_ok s x \<Longrightarrow> robot_inv (apply_op s x)"
  by (cases x) (simp_all add: start_inv stop_inv reset_inv generate_inv)

lemma exec_inv: "robot_inv s \<Longrightarrow> ops_ok s xs \<Longrightarrow> robot_inv (exec s xs)"
  by (induction xs arbitrary: s) (simp_all add: apply_op_inv)

lemma generate_temperature:
  assumes "unit_draw (temp_u d)"
  shows "(current_status s = ''working'' \<longrightarrow>
            40 \<le> temperature (fst (generate_telemetry s d)) \<and>
            temperature (fst (generate_telemetry s d)) \<le> 55) \<and>
         (current_status s = ''error'' \<longrightarrow>
            50 \<le> temperature (fst (generate_telemetry s d)) \<and>
            temperature (fst (generate_telemetry s d)) \<le> 60) \<and>
         (current_status s \<noteq> ''working'' \<and> current_status s \<noteq> ''error'' \<longrightarrow>
            35 \<le> temperature (fst (generate_telemetry s d)) \<and>
            temperature (fst (generate_telemetry s d)) \<le> 42)"
proof -
  have w: "of_int 40 \<le> py_round1 (uniform 40 55 (temp_u d)) \<and>
           py_round1 (uniform 40 55 (temp_u d)) \<le> of_int 55"
    using uniform_bounds[OF assms, of 40 55] by (intro py_round1_bounds) simp_all
  have e: "of_int 50 \<le> py_round1 (uniform 50 60 (temp_u d)) \<and>
           py_round1 (uniform 50 60 (temp_u d)) \<le> of_int 60"
    using uniform_bounds[OF assms, of 50 60] by (intro py_round1_bounds) simp_all
  have i: "of_int 35 \<le> py_round1 (uniform 35 42 (temp_u d)) \<and>
           py_round1 (uniform 35 42 (temp_u d)) \<le> of_int 42"
    using uniform_bounds[OF assms, of 35 42] by (intro py_round1_bounds) simp_all
  show ?thesis
    using w e i by (simp add: generate_telemetry_def Let_def TEMP_MIN_def TEMP_MAX_def)
qed

lemma generate_battery:
  assumes "robot_inv s" "unit_draw (drain_u d)"
  shows "20 \<le> battery (fst (generate_telemetry s d)) \<and>
         battery (fst (generate_telemetry s d)) \<le> 100"
proof -
  have b: "20 \<le> battery_level s" "battery_level s \<le> 100"
    using assms(1) by (simp_all add: robot_inv_def)
  have keep: "20 \<le> py_int (battery_level s) \<and> py_int (battery_level s) \<le> 100"
    using b by (intro py_int_bounds) simp_all
  have drained: "20 \<le> py_int (max (of_int BATTERY_MIN)
                     (battery_level s - uniform 0 (1 / 2) (drain_u d))) \<and>
                 py_int (max (of_int BATTERY_MIN)
                     (battery_level s - uniform 0 (1 / 2) (drain_u d))) \<le> 100"
    using drain_bounds[OF assms(2) b] by (intro py_int_bounds) simp_all
  show ?thesis
    using keep drained by (simp add: generate_telemetry_def Let_def)
qed

lemma generate_motor_rpm:
  assumes "gen_draws_ok s d"
  shows "0 \<le> motor_rpm (fst (generate_telemetry s d)) \<and>
         motor_rpm (fst (generate_telemetry s d)) \<le> 1800"
  using assms
  by (auto simp: generate_telemetry_def gen_draws_ok_def Let_def randint_def randint_draw_def
      RPM_MIN_def RPM_MAX_def split: if_splits)

lemma generate_in_bounds:
  assumes "robot_inv s" "gen_draws_ok s d"
  shows "sample_in_bounds (current_status s) (fst (generate_telemetry s d))"
proof -
  have u: "unit_draw (temp_u d)" "unit_draw (drain_u d)"
    using assms(2) by (simp_all add: gen_draws_ok_def)
  have m: "current_status s = ''idle'' \<or> current_status s = ''working'' \<or>
           current_status s = ''error''"
    using assms(1) by (simp add: robot_inv_def)
  have t: "case declared_temp_range (current_status s) of
             None \<Rightarrow> False
           | Some (lo, hi) \<Rightarrow> lo \<le> temperature (fst (generate_telemetry s d)) \<and>
                              temperature (fst (generate_telemetry s d)) \<le> hi"
    using m generate_temperature[OF u(1), of s]
    by (auto simp: declared_temp_range_def)
  have b: "0 \<le> battery (fst (generate_telemetry s d)) \<and>
           battery (fst (generate_telemetry s d)) \<le> 100"
    using generate_battery[OF assms(1) u(2)] by simp
  show ?thesis
    using t b generate_motor_rpm[OF assms(2)] by (simp add: sample_in_bounds_def)
qed

lemma samples_in_bounds:
  "robot_inv s \<Longrightarrow> ops_ok s xs \<Longrightarrow>
   list_all (\<lambda>(m, x). sample_in_bounds m x) (samples s xs)"
proof (induction xs arbitrary: s)
  case Nil
  then show ?case by simp
next
  case (Cons x xs)
  then have ok: "op_ok s x" and rest: "ops_ok (apply_op s x) xs" by simp_all
  have "robot_inv (apply_op s x)" using Cons.prems(1) ok by (rule apply_op_inv)
  then have tl: "list_all (\<lambda>(m, x). sample_in_bounds m x) (samples (apply_op s x) xs)"
    using rest by (rule Cons.IH)
  show ?case
  proof (cases x)
    case (Generate d)
    then have "sample_in_bounds (current_status s) (fst (generate_telemetry s d))"
      using Cons.prems(1) ok by (simp add: generate_in_bounds)
    then show ?thesis using tl Generate by simp
  qed (use tl in simp_all)
qed

text \<open>
  C1. Whatever sequence of \<open>start\<close>, \<open>stop\<close>, \<open>reset\<close> and
  \<open>generate_telemetry\<close> calls is made on a fresh simulator, every sample returned has
  its battery in [0, 100], its motor speed in [0, 1800], and its temperature in the
  declared range of the mode the simulator held when that generation began:
  [35, 42] idle, [40, 55] working, [50, 60] error.
\<close>

theorem generated_samples_in_bounds:
  "randint_draw 70 100 k \<Longrightarrow> ops_ok (init k) ops \<Longrightarrow>
   list_all (\<lambda>(m, x). sample_in_bounds m x) (samples (init k) ops)"
proof -
  assume draw: "randint_draw 70 100 k" and ok: "ops_ok (init k) ops"
  from draw have "robot_inv (init k)" by (rule init_inv)
  then show ?thesis using ok by (rule samples_in_bounds)
qed

theorem generated_samples_in_bounds_witness:
  "randint_draw 70 100 12 \<and> ops_ok (init 12) demo_ops \<and>
   list_all (\<lambda>(m, x). sample_in_bounds m x) (samples (init 12) demo_ops)"
proof -
  have k: "randint_draw 70 100 12" by (simp add: randint_draw_def)
  have ok: "ops_ok (init 12) demo_ops" by code_simp
  show ?thesis using k ok generated_samples_in_bounds[OF k ok] by simp
qed

text \<open>
  C2. From any prior state \<open>reset\<close> reports success and leaves the simulator running,
  idle, with a battery level in [70, 100]; the command \<open>reset\<close> of
  \<open>execute_command\<close> is that call.
\<close>

theorem reset_postcondition:
  assumes "randint_draw 70 100 k"
  shows "success (fst (reset k s)) \<and> running (snd (reset k s)) \<and>
         current_status (snd (reset k s)) = ''idle'' \<and>
         70 \<le> battery_level (snd (reset k s)) \<and> battery_level (snd (reset k s)) \<le> 100 \<and>
         execute_command k s ''reset'' = reset k s"
proof -
  have "int k \<le> 30" using assms by (simp add: randint_draw_def)
  then have b: "70 \<le> (of_int (randint 70 100 k) :: rat)"
               "(of_int (randint 70 100 k) :: rat) \<le> 100"
    by (simp_all add: randint_def)
  have e: "execute_command k s ''reset'' = reset k s"
    by (simp add: execute_command_def commands_def)
  show ?thesis using b e by (simp add: reset_def)
qed

theorem reset_postcondition_witness:
  "randint_draw 70 100 5 \<and> success (fst (reset 5 worn_out)) \<and>
   snd (reset 5 worn_out) = \<lparr>running = True, current_status = ''idle'', battery_level = 75\<rparr>"
proof -
  have k: "randint_draw 70 100 5" by (simp add: randint_draw_def)
  have "snd (reset 5 worn_out) = \<lparr>running = True, current_status = ''idle'', battery_level = 75\<rparr>"
    by (simp add: reset_def worn_out_def randint_def)
  then show ?thesis using k reset_postcondition[OF k, of worn_out] by simp
qed

lemma join_valid_commands:
  "join '', '' [''start'', ''stop'', ''reset''] = ''start, stop, reset''"
  by simp

text \<open>
  C4. A command that is none of \<open>start\<close>, \<open>stop\<close>, \<open>reset\<close> is rejected by
  the simulator and by the service with \<open>success\<close> false and a message that says so, and
  the state (running flag, mode, battery level, and the tables) is the state before the
  call.
\<close>

theorem unknown_command_rejected:
  assumes "command \<notin> {''start'', ''stop'', ''reset''}"
  shows "execute_command k s command =
           (\<lparr>success = False, message = ''Unknown command: '' @ command,
             result_robot_id = None\<rparr>, s) \<and>
         service_execute_command k env sv command rid =
           (Inr \<lparr>success = False,
                 message = ''Invalid command. Valid commands: start, stop, reset'',
                 result_robot_id = None\<rparr>, sv)"
proof -
  have "map_of (commands k) command = None"
    using assms by (simp add: commands_def)
  then have sim: "execute_command k s command =
      (\<lparr>success = False, message = ''Unknown command: '' @ command,
        result_robot_id = None\<rparr>, s)"
    by (simp add: execute_command_def)
  have srv: "service_execute_command k env sv command rid =
      (Inr \<lparr>success = False,
            message = ''Invalid command. Valid commands: start, stop, reset'',
            result_robot_id = None\<rparr>, sv)"
    using assms by (simp add: service_execute_command_def Let_def)
  show ?thesis using sim srv by simp
qed

theorem unknown_command_rejected_witness:
  "''launch'' \<notin> {''start'', ''stop'', ''reset''} \<and>
   execute_command 0 worn_out ''launch'' =
     (\<lparr>success = False, message = ''Unknown command: launch'', result_robot_id = None\<rparr>,
      worn_out) \<and>
   service_execute_command 0 \<lparr>commit_raises = None, new_id = 1\<rparr>
       (service_init None 12) ''launch'' None =
     (Inr \<lparr>success = False,
           message = ''Invalid command. Valid commands: start, stop, reset'',
           result_robot_id = None\<rparr>, service_init None 12)"
proof -
  have h: "''launch'' \<notin> {''start'', ''stop'', ''reset''}" by simp
  show ?thesis
    using h unknown_command_rejected
      [OF h, of 0 worn_out "\<lparr>commit_raises = None, new_id = 1\<rparr>" "service_init None 12" None]
    by simp
qed

subsection \<open>The battery floor\<close>

lemma no_battery_alerts:
  assumes "d_battery data = Some b" "20 \<le> b"
  shows "battery_alerts data = []"
  using assms by (simp add: battery_alerts_def check_alerts_def get_or_def Let_def)

lemma exec_battery_floor:
  "robot_inv s \<Longrightarrow> ops_ok s xs \<Longrightarrow> 20 \<le> battery_level (exec s xs)"
  using exec_inv[of s xs] by (simp add: robot_inv_def)

lemma samples_battery_floor:
  "robot_inv s \<Longrightarrow> ops_ok s xs \<Longrightarrow>
   list_all (\<lambda>(m, x). 20 \<le> battery x \<and> battery_alerts (sample_dict x) = []) (samples s xs)"
proof (induction xs arbitrary: s)
  case Nil
  then show ?case by simp
next
  case (Cons x xs)
  then have ok: "op_ok s x" and rest: "ops_ok (apply_op s x) xs" by simp_all
  have "robot_inv (apply_op s x)" using Cons.prems(1) ok by (rule apply_op_inv)
  then have tl: "list_all (\<lambda>(m, x). 20 \<le> battery x \<and> battery_alerts (sample_dict x) = [])
                   (samples (apply_op s x) xs)"
    using rest by (rule Cons.IH)
  show ?case
  proof (cases x)
    case (Generate d)
    then have "unit_draw (drain_u d)" using ok by (simp add: gen_draws_ok_def)
    with Cons.prems(1) have b: "20 \<le> battery (fst (generate_telemetry s d))"
      using generate_battery by blast
    have "d_battery (sample_dict (fst (generate_telemetry s d))) =
            Some (battery (fst (generate_telemetry s d)))"
      by (simp add: sample_dict_def)
    then have "battery_alerts (sample_dict (fst (generate_telemetry s d))) = []"
      using b by (rule no_battery_alerts)
    then show ?thesis using b tl Generate by simp
  qed (use tl in simp_all)
qed

text \<open>
  C9. In every state a fresh simulator can reach the battery level is at least 20;
  every generated sample reports a battery of at least 20, and \<open>check_alerts\<close> raises
  neither battery alert for it.
\<close>

theorem battery_never_below_floor:
  assumes "randint_draw 70 100 k" "ops_ok (init k) ops"
  shows "20 \<le> battery_level (exec (init k) ops) \<and>
         list_all (\<lambda>(m, x). 20 \<le> battery x \<and> battery_alerts (sample_dict x) = [])
           (samples (init k) ops)"
proof -
  have "robot_inv (init k)" using assms(1) by (rule init_inv)
  then show ?thesis
    using assms(2) exec_battery_floor samples_battery_floor by blast
qed

theorem battery_never_below_floor_witness:
  "randint_draw 70 100 12 \<and> ops_ok (init 12) demo_ops \<and>
   20 \<le> battery_level (exec (init 12) demo_ops) \<and>
   list_all (\<lambda>(m, x). 20 \<le> battery x \<and> battery_alerts (sample_dict x) = [])
     (samples (init 12) demo_ops)"
proof -
  have k: "randint_draw 70 100 12" by (simp add: randint_draw_def)
  have ok: "ops_ok (init 12) demo_ops" by code_simp
  show ?thesis using k ok battery_never_below_floor[OF k ok] by simp
qed

subsection \<open>The mode a sample reports\<close>

lemma generate_status_is_final:
  "status (fst (generate_telemetry s d)) = current_status (snd (generate_telemetry s d))"
  by (simp add: generate_telemetry_def Let_def)

lemma generate_entry_ranges:
  assumes "robot_inv s" "gen_draws_ok s d"
  shows "in_declared_ranges (current_status s) (fst (generate_telemetry s d))"
proof -
  have u: "unit_draw (temp_u d)" using assms(2) by (simp add: gen_draws_ok_def)
  have m: "current_status s = ''idle'' \<or> current_status s = ''working'' \<or>
           current_status s = ''error''"
    using assms(1) by (simp add: robot_inv_def)
  have r: "(current_status s = ''working'' \<longrightarrow>
              1200 \<le> motor_rpm (fst (generate_telemetry s d)) \<and>
              motor_rpm (fst (generate_telemetry s d)) \<le> 1800) \<and>
           (current_status s = ''error'' \<longrightarrow>
              0 \<le> motor_rpm (fst (generate_telemetry s d)) \<and>
              motor_rpm (fst (generate_telemetry s d)) \<le> 500) \<and>
           (current_status s = ''idle'' \<longrightarrow>
              800 \<le> motor_rpm (fst (generate_telemetry s d)) \<and>
              motor_rpm (fst (generate_telemetry s d)) \<le> 1000)"
    using assms(2)
    by (auto simp: generate_telemetry_def gen_draws_ok_def Let_def randint_def
        randint_draw_def RPM_MIN_def RPM_MAX_def)
  show ?thesis
    using m r generate_temperature[OF u, of s]
    by (auto simp: in_declared_ranges_def declared_temp_range_def declared_rpm_range_def)
qed

lemma demo_drift_sample:
  "fst (generate_telemetry (init 12) demo_drift) =
     \<lparr>temperature = 77 / 2, battery = 82, motor_rpm = 900, status = ''error'',
      timestamp = ''2024-01-01T00:00:00'', sample_robot_id = None\<rparr>"
  by code_simp

text \<open>
  C10. The sample reports the mode the simulator holds after the drift, while its
  temperature and motor speed were drawn for the mode held at entry; so there are runs
  whose sample lies outside the declared ranges of the status it reports. In the run
  exhibited the simulator is idle at entry, the sample has temperature 38.5 and motor
  speed 900, and reports the status \<open>error\<close>.
\<close>

theorem status_reported_after_drift:
  "(\<forall>s d. status (fst (generate_telemetry s d)) = current_status (snd (generate_telemetry s d))) \<and>
   (\<forall>s d. robot_inv s \<and> gen_draws_ok s d \<longrightarrow>
      in_declared_ranges (current_status s) (fst (generate_telemetry s d))) \<and>
   (\<exists>k d. randint_draw 70 100 k \<and> gen_draws_ok (init k) d \<and>
      current_status (init k) = ''idle'' \<and>
      status (fst (generate_telemetry (init k) d)) = ''error'' \<and>
      \<not> in_declared_ranges (status (fst (generate_telemetry (init k) d)))
          (fst (generate_telemetry (init k) d)))"
proof (intro conjI allI impI)
  show "\<exists>k d. randint_draw 70 100 k \<and> gen_draws_ok (init k) d \<and>
      current_status (init k) = ''idle'' \<and>
      status (fst (generate_telemetry (init k) d)) = ''error'' \<and>
      \<not> in_declared_ranges (status (fst (generate_telemetry (init k) d)))
          (fst (generate_telemetry (init k) d))"
  proof (intro exI conjI)
    show "randint_draw 70 100 12" by (simp add: randint_draw_def)
    show "gen_draws_ok (init 12) demo_drift" by code_simp
    show "current_status (init 12) = ''idle''" by (simp add: init_def)
    show "status (fst (generate_telemetry (init 12) demo_drift)) = ''error''"
      by (simp add: demo_drift_sample)
    show "\<not> in_declared_ranges (status (fst (generate_telemetry (init 12) demo_drift)))
          (fst (generate_telemetry (init 12) demo_drift))"
      by (simp add: demo_drift_sample in_declared_ranges_def declared_temp_range_def
          declared_rpm_range_def)
  qed
qed (simp_all add: generate_status_is_final generate_entry_ranges)

theorem status_reported_after_drift_witness:
  "robot_inv (init 12) \<and> gen_draws_ok (init 12) demo_drift \<and>
   in_declared_ranges ''idle'' (fst (generate_telemetry (init 12) demo_drift)) \<and>
   status (fst (generate_telemetry (init 12) demo_drift)) = ''error'' \<and>
   temperature (fst (generate_telemetry (init 12) demo_drift)) = 77 / 2 \<and>
   motor_rpm (fst (generate_telemetry (init 12) demo_drift)) = 900"
proof -
  have i: "robot_inv (init 12)" by (simp add: init_inv randint_draw_def)
  have d: "gen_draws_ok (init 12) demo_drift" by code_simp
  have m: "current_status (init 12) = ''idle''" by (simp add: init_def)
  from status_reported_after_drift
  have "robot_inv (init 12) \<and> gen_draws_ok (init 12) demo_drift \<longrightarrow>
        in_declared_ranges (current_status (init 12))
          (fst (generate_telemetry (init 12) demo_drift))"
    by blast
  then have "in_declared_ranges ''idle'' (fst (generate_telemetry (init 12) demo_drift))"
    using i d m by simp
  then show ?thesis using i d by (simp add: demo_drift_sample)
qed

section \<open>Properties of the alert evaluator\<close>

lemma check_alerts_kinds:
  "map alert_kind (check_alerts (sample_dict x)) = map kind_of (expected_alerts x)"
  by (simp add: check_alerts_def sample_dict_def expected_alerts_def alert_rules_def
      alert_kind_def kind_of_def get_or_def Let_def)

lemma check_alerts_hot:
  "check_alerts hot_sample =
     [[(''type'', PyStr ''warning''), (''category'', PyStr ''temperature''),
       (''message'', PyFStr [PyStr ''High temperature: '', PyFloat 56, PyStr degrees_C]),
       (''threshold'', PyInt 50), (''value'', PyFloat 56)],
      [(''type'', PyStr ''critical''), (''category'', PyStr ''temperature''),
       (''message'', PyFStr [PyStr ''Critical temperature: '', PyFloat 56, PyStr degrees_C]),
       (''threshold'', PyInt 55), (''value'', PyFloat 56)]]"
  by (simp add: check_alerts_def hot_sample_def get_or_def Let_def)

lemma check_alerts_error:
  "check_alerts error_sample =
     [[(''type'', PyStr ''critical''), (''category'', PyStr ''status''),
       (''message'', PyStr ''Robot in ERROR state''), (''value'', PyStr ''error'')]]"
  by (simp add: check_alerts_def error_sample_def get_or_def Let_def)

text \<open>
  C3. For every sample the alerts raised are those of the rules whose condition holds,
  each rule on its own, in the order of the rules: temperature above 50 (warning),
  temperature above 55 (critical), battery below 20 (warning), battery below 10
  (critical), status \<open>error\<close> (critical). The sample with temperature 56, battery 50,
  motor speed 100 and status \<open>working\<close> raises the temperature warning at threshold 50,
  then the critical temperature alert at threshold 55, and nothing else.
\<close>

theorem check_alerts_follows_rules:
  "map alert_kind (check_alerts (sample_dict x)) = map kind_of (expected_alerts x) \<and>
   check_alerts hot_sample =
     [[(''type'', PyStr ''warning''), (''category'', PyStr ''temperature''),
       (''message'', PyFStr [PyStr ''High temperature: '', PyFloat 56, PyStr degrees_C]),
       (''threshold'', PyInt 50), (''value'', PyFloat 56)],
      [(''type'', PyStr ''critical''), (''category'', PyStr ''temperature''),
       (''message'', PyFStr [PyStr ''Critical temperature: '', PyFloat 56, PyStr degrees_C]),
       (''threshold'', PyInt 55), (''value'', PyFloat 56)]]"
  using check_alerts_kinds check_alerts_hot by simp

theorem check_alerts_follows_rules_witness:
  "map alert_kind (check_alerts (sample_dict
     \<lparr>temperature = 56, battery = 5, motor_rpm = 100, status = ''error'',
      timestamp = ''2024-01-01T00:00:00'', sample_robot_id = None\<rparr>)) =
   [(Some (PyStr ''warning''), Some (PyStr ''temperature''), Some (PyInt 50)),
    (Some (PyStr ''critical''), Some (PyStr ''temperature''), Some (PyInt 55)),
    (Some (PyStr ''warning''), Some (PyStr ''battery''), Some (PyInt 20)),
    (Some (PyStr ''critical''), Some (PyStr ''battery''), Some (PyInt 10)),
    (Some (PyStr ''critical''), Some (PyStr ''status''), None)]"
  using check_alerts_follows_rules
    [of "\<lparr>temperature = 56, battery = 5, motor_rpm = 100, status = ''error'',
          timestamp = ''2024-01-01T00:00:00'', sample_robot_id = None\<rparr>"]
  by (simp add: expected_alerts_def alert_rules_def kind_of_def)

text \<open>
  C5, as first stated, fails. The alert of the status category carries a \<open>value\<close>
  field: the statement that it omits both \<open>threshold\<close> and \<open>value\<close> fails on the
  sample whose status is \<open>error\<close>.
\<close>

theorem status_alert_fields_counterexample:
  "map_of (hd (check_alerts error_sample)) ''category'' = Some (PyStr ''status'') \<and>
   ''value'' \<in> field_names (hd (check_alerts error_sample))"
  by (simp add: check_alerts_error field_names_def)

text \<open>
  C5 (as amended). Every alert has exactly the fields \<open>type\<close>, \<open>category\<close>,
  \<open>message\<close>, \<open>threshold\<close>, \<open>value\<close>, except the alert of the status category,
  which has exactly \<open>type\<close>, \<open>category\<close>, \<open>message\<close>, \<open>value\<close>: only the
  threshold is left out.
\<close>

theorem alert_fields:
  "\<forall>a \<in> set (check_alerts data).
     field_names a =
       (if map_of a ''category'' = Some (PyStr ''status'')
        then {''type'', ''category'', ''message'', ''value''}
        else {''type'', ''category'', ''message'', ''threshold'', ''value''})"
  by (auto simp: check_alerts_def field_names_def Let_def)

theorem alert_fields_witness:
  "hd (check_alerts error_sample) \<in> set (check_alerts error_sample) \<and>
   field_names (hd (check_alerts error_sample)) = {''type'', ''category'', ''message'', ''value''}"
proof -
  have m: "hd (check_alerts error_sample) \<in> set (check_alerts error_sample)"
    by (simp add: check_alerts_error)
  have c: "map_of (hd (check_alerts error_sample)) ''category'' = Some (PyStr ''status'')"
    by (simp add: check_alerts_error)
  show ?thesis using m c alert_fields[of error_sample] by auto
qed

section \<open>Properties of the hub\<close>

lemma empty_hub_inv: "hub_inv empty_hub"
  by (simp add: hub_inv_def empty_hub_def)

lemma serve_inv: "hub_inv h \<Longrightarrow> hub_inv (fst (serve h m))"
proof (cases m)
  case (Connect c)
  assume "hub_inv h"
  then show ?thesis using Connect
    by (auto simp: hub_inv_def handle_connect_def Let_def)
next
  case (Disconnect c)
  assume "hub_inv h"
  then show ?thesis using Disconnect
    by (auto simp: hub_inv_def handle_disconnect_def Let_def)
next
  case (Subscribe c ch)
  assume "hub_inv h"
  then show ?thesis using Subscribe
    by (auto simp: hub_inv_def handle_subscribe_def Let_def split: if_splits)
next
  case (Unsubscribe c ch)
  assume "hub_inv h"
  then show ?thesis using Unsubscribe
    by (auto simp: hub_inv_def handle_unsubscribe_def Let_def split: if_splits)
next
  case (Ping c)
  assume "hub_inv h"
  then show ?thesis using Ping
    by (auto simp: hub_inv_def handle_ping_def)
qed

lemma serve_all_inv: "hub_inv h \<Longrightarrow> hub_inv (serve_all h ms)"
  by (induction ms arbitrary: h) (simp_all add: serve_inv)

lemma delivered_telemetry:
  "delivered h ''telemetry_update'' (TelemetryUpdate data) (broadcast_telemetry h data) =
     (if connected_clients h \<noteq> {} then rooms h ''telemetry'' \<union> sessions h else {})"
  by (simp add: broadcast_telemetry_def receivers_def)

lemma delivered_alert:
  "delivered h ''alert'' (AlertData a) (broadcast_alert h a) = sessions h"
  by (simp add: broadcast_alert_def receivers_def)

lemma demo_hub:
  "serve_all empty_hub demo_msgs =
     \<lparr>connected_clients = {''a'', ''b''}, sessions = {''a'', ''b''},
      rooms = (\<lambda>r. if r = ''telemetry'' then {''b''} else {})\<rparr>"
  apply (simp add: demo_msgs_def empty_hub_def handle_connect_def handle_subscribe_def
      handle_disconnect_def get_or_def Let_def)
  apply (auto simp: fun_eq_iff)
  done

text \<open>
  C6. After any exchange of messages with its clients, a published telemetry sample is
  delivered to every member of the room \<open>telemetry\<close> and to every session the server
  holds, and a published alert to every session: a client that is connected and sits in
  no room receives each of them.
\<close>

theorem telemetry_and_alerts_reach_every_session:
  "let h = serve_all empty_hub msgs in
     (c \<in> rooms h ''telemetry'' \<longrightarrow>
        c \<in> delivered h ''telemetry_update'' (TelemetryUpdate data) (broadcast_telemetry h data)) \<and>
     (c \<in> sessions h \<longrightarrow>
        c \<in> delivered h ''telemetry_update'' (TelemetryUpdate data) (broadcast_telemetry h data) \<and>
        c \<in> delivered h ''alert'' (AlertData a) (broadcast_alert h a))"
proof -
  define h where "h = serve_all empty_hub msgs"
  have inv: "hub_inv h" unfolding h_def by (rule serve_all_inv[OF empty_hub_inv])
  have room: "c \<in> delivered h ''telemetry_update'' (TelemetryUpdate data) (broadcast_telemetry h data)"
    if "c \<in> rooms h ''telemetry''"
  proof -
    from that inv have "c \<in> sessions h" by (auto simp: hub_inv_def)
    with inv have "connected_clients h \<noteq> {}" by (auto simp: hub_inv_def)
    then show ?thesis using that by (simp add: delivered_telemetry)
  qed
  have sess: "c \<in> delivered h ''telemetry_update'' (TelemetryUpdate data) (broadcast_telemetry h data)"
    if "c \<in> sessions h"
  proof -
    from that inv have "connected_clients h \<noteq> {}" by (auto simp: hub_inv_def)
    then show ?thesis using that by (simp add: delivered_telemetry)
  qed
  have al: "c \<in> delivered h ''alert'' (AlertData a) (broadcast_alert h a)" if "c \<in> sessions h"
    using that by (simp add: delivered_alert)
  show ?thesis using room sess al by (simp add: h_def Let_def)
qed

theorem telemetry_and_alerts_reach_every_session_witness:
  "''a'' \<in> sessions (serve_all empty_hub demo_msgs) \<and>
   (\<Union>r. rooms (serve_all empty_hub demo_msgs) r) = {''b''} \<and>
   ''a'' \<in> delivered (serve_all empty_hub demo_msgs) ''telemetry_update''
            (TelemetryUpdate hot_sample)
            (broadcast_telemetry (serve_all empty_hub demo_msgs) hot_sample) \<and>
   ''a'' \<in> delivered (serve_all empty_hub demo_msgs) ''alert''
            (AlertData (hd (check_alerts hot_sample)))
            (broadcast_alert (serve_all empty_hub demo_msgs) (hd (check_alerts hot_sample)))"
proof -
  have s: "''a'' \<in> sessions (serve_all empty_hub demo_msgs)" by (simp add: demo_hub)
  have r: "(\<Union>r. rooms (serve_all empty_hub demo_msgs) r) = {''b''}"
    by (auto simp: demo_hub split: if_splits)
  show ?thesis
    using s r telemetry_and_alerts_reach_every_session
      [where c = "''a''" and msgs = demo_msgs and data = hot_sample
         and a = "hd (check_alerts hot_sample)"]
    by (simp add: Let_def)
qed

section \<open>Properties of the generator loop\<close>

lemma broadcast_telemetry_quiet:
  "filter is_sleep (broadcast_telemetry h d) = [] \<and>
   filter is_error_log (broadcast_telemetry h d) = []"
  by (simp add: broadcast_telemetry_def)

lemma alert_loop_quiet:
  "filter is_sleep (alert_loop h as) = [] \<and> filter is_error_log (alert_loop h as) = []"
  by (induction as) (simp_all add: broadcast_alert_def)

lemma generate_and_save_raises:
  "commit_raises env = Some e \<Longrightarrow>
   generate_and_save_telemetry d env sv rid =
     (Inl e, sv\<lparr>simulator := snd (generate_telemetry (simulator sv) d)\<rparr>)"
  by (simp add: generate_and_save_telemetry_def save_telemetry_def Let_def split: prod.splits)

lemma generate_and_save_returns:
  "commit_raises env = None \<Longrightarrow> \<exists>data sv'. generate_and_save_telemetry d env sv rid = (Inr data, sv')"
  by (simp add: generate_and_save_telemetry_def save_telemetry_def Let_def split: prod.splits)

lemma tick_failure:
  assumes "commit_raises (db env) = Some (Exception msg)"
  shows "tick env sys =
     (None, sys\<lparr>svc := (svc sys)\<lparr>simulator := snd (generate_telemetry (simulator (svc sys)) (draws env))\<rparr>,
                 trace := trace sys @ [Logged (Error_generating (Exception msg))]\<rparr>)"
  using assms by (simp add: tick_def generate_and_save_raises)

lemma tick_recoverable:
  assumes "recoverable env"
  shows "fst (tick env sys) = None \<and>
         sleeps (snd (tick env sys)) = sleeps sys \<and>
         error_logs (snd (tick env sys)) = error_logs sys + (if failing env then 1 else 0)"
proof (cases "commit_raises (db env)")
  case None
  then obtain data sv' where
    g: "generate_and_save_telemetry (draws env) (db env) (svc sys) None = (Inr data, sv')"
    using generate_and_save_returns by blast
  show ?thesis
    using None g broadcast_telemetry_quiet alert_loop_quiet
    by (simp add: tick_def sleeps_def error_logs_def failing_def)
next
  case (Some e)
  with assms obtain msg where e: "e = Exception msg"
    by (cases e) (simp_all add: recoverable_def caught_def)
  show ?thesis
    using Some e tick_failure[of env msg sys]
    by (simp add: sleeps_def error_logs_def failing_def)
qed

lemma generator_loop_keeps_going:
  "list_all recoverable envs \<Longrightarrow>
   fst (generator_loop interval envs sys) = None \<and>
   sleeps (snd (generator_loop interval envs sys)) = sleeps sys + length envs \<and>
   error_logs (snd (generator_loop interval envs sys)) =
     error_logs sys + length (filter failing envs)"
proof (induction envs arbitrary: sys)
  case Nil
  then show ?case by simp
next
  case (Cons env envs)
  then have r: "recoverable env" and rs: "list_all recoverable envs" by simp_all
  obtain sys' where t: "tick env sys = (None, sys')"
    using tick_recoverable[OF r, of sys] by (cases "tick env sys") simp
  define sys'' where "sys'' = sys'\<lparr>trace := trace sys' @ [Slept interval]\<rparr>"
  have s: "sleeps sys'' = sleeps sys + 1"
    using tick_recoverable[OF r, of sys] t by (simp add: sys''_def sleeps_def)
  have l: "error_logs sys'' = error_logs sys + (if failing env then 1 else 0)"
    using tick_recoverable[OF r, of sys] t by (simp add: sys''_def error_logs_def)
  have step: "generator_loop interval (env # envs) sys = generator_loop interval envs sys''"
    using t by (simp add: sys''_def)
  show ?case
    using Cons.IH[OF rs, of sys''] s l step by simp
qed

text \<open>
  C7. When saving the sample raises an exception on a tick, the tick logs the failure
  and ends without letting the exception out, so the loop goes on to its sleep and to
  the next tick. A loop whose ticks meet only such failures never ends by one: it sleeps
  once per tick and logs one error per failed tick.
\<close>

theorem failures_do_not_stop_generator:
  "(commit_raises (db env) = Some (Exception msg) \<longrightarrow>
      tick env sys =
        (None, sys\<lparr>svc := (svc sys)\<lparr>simulator :=
                           snd (generate_telemetry (simulator (svc sys)) (draws env))\<rparr>,
                    trace := trace sys @ [Logged (Error_generating (Exception msg))]\<rparr>)) \<and>
   (list_all recoverable envs \<longrightarrow>
      fst (telemetry_generator interval envs sys) = None \<and>
      sleeps (snd (telemetry_generator interval envs sys)) = sleeps sys + length envs \<and>
      error_logs (snd (telemetry_generator interval envs sys)) =
        error_logs sys + length (filter failing envs))"
proof (intro conjI impI)
  assume "commit_raises (db env) = Some (Exception msg)"
  then show "tick env sys =
        (None, sys\<lparr>svc := (svc sys)\<lparr>simulator :=
                           snd (generate_telemetry (simulator (svc sys)) (draws env))\<rparr>,
                    trace := trace sys @ [Logged (Error_generating (Exception msg))]\<rparr>)"
    by (rule tick_failure)
next
  assume r: "list_all recoverable envs"
  define sys0 where "sys0 = sys\<lparr>trace := trace sys @ [Logged (Info_starting_generator interval)]\<rparr>"
  have "sleeps sys0 = sleeps sys" "error_logs sys0 = error_logs sys"
    by (simp_all add: sys0_def sleeps_def error_logs_def)
  moreover have "telemetry_generator interval envs sys = generator_loop interval envs sys0"
    by (simp add: telemetry_generator_def sys0_def)
  ultimately have all: "fst (telemetry_generator interval envs sys) = None \<and>
      sleeps (snd (telemetry_generator interval envs sys)) = sleeps sys + length envs \<and>
      error_logs (snd (telemetry_generator interval envs sys)) =
        error_logs sys + length (filter failing envs)"
    using generator_loop_keeps_going[OF r, of interval sys0] by simp
  from all show "fst (telemetry_generator interval envs sys) = None" by simp
  from all show "sleeps (snd (telemetry_generator interval envs sys)) = sleeps sys + length envs"
    by simp
  from all show "error_logs (snd (telemetry_generator interval envs sys)) =
        error_logs sys + length (filter failing envs)" by simp
qed

theorem failures_do_not_stop_generator_witness:
  "commit_raises (db demo_failed_tick) = Some (Exception ''database is locked'') \<and>
   fst (tick demo_failed_tick demo_system) = None \<and>
   trace (snd (tick demo_failed_tick demo_system)) =
     [Logged (Error_generating (Exception ''database is locked''))] \<and>
   list_all recoverable demo_envs \<and>
   fst (telemetry_generator 2 demo_envs demo_system) = None \<and>
   sleeps (snd (telemetry_generator 2 demo_envs demo_system)) = 3 \<and>
   error_logs (snd (telemetry_generator 2 demo_envs demo_system)) = 1"
proof -
  have c: "commit_raises (db demo_failed_tick) = Some (Exception ''database is locked'')"
    by (simp add: demo_failed_tick_def)
  have r: "list_all recoverable demo_envs"
    by (simp add: demo_envs_def demo_failed_tick_def recoverable_def caught_def)
  have z: "sleeps demo_system = 0" "error_logs demo_system = 0" "trace demo_system = []"
    by (simp_all add: demo_system_def sleeps_def error_logs_def)
  have f: "length (filter failing demo_envs) = 1" "length demo_envs = 3"
    by (simp_all add: demo_envs_def demo_failed_tick_def failing_def)
  show ?thesis
    using c r z f failures_do_not_stop_generator
      [where envs = demo_envs and interval = 2 and sys = demo_system
         and env = demo_failed_tick and msg = "''database is locked''"]
    by simp
qed

end
